theory Spec2Isabelle
  imports Main
begin

section \<open>Subtitle generator: a shallow embedding of subgen\_whisperx.py\<close>

text \<open>
  The program is one Python module. Its functions are embedded one by one, under their
  own names. Strings are \<^typ>\<open>string\<close>, read as lists of code points below 256.
  A raised exception is the left summand of a sum type. Every call of a logger, of the
  stopwatch and of an external collaborator (the accelerator probe, ffmpeg, the
  transcription library, the file system) is recorded, in program order, in a list of
  events which each function returns beside its value. The collaborators themselves are
  the fields of an environment record: what they return is a parameter of every theorem.
  Paths follow the POSIX versions of the \<open>os.path\<close> functions.
\<close>

subsection \<open>Exceptions and events\<close>

text \<open>
  The exceptions are the subclasses of \<open>Exception\<close>, which is what every handler of the
  module catches; the argument is the message, which \<open>str(e)\<close> returns.
\<close>

datatype exn =
    AttributeError string
  | ValueError string
  | Exception string

fun exn_str :: "exn \<Rightarrow> string" where
  "exn_str (AttributeError m) = m"
| "exn_str (ValueError m) = m"
| "exn_str (Exception m) = m"

datatype level = DEBUG | INFO | WARNING | ERROR

datatype event =
    Log level string string
  | TimerStart string
  | TimerStop string
  | TimerSummary
  | CudaProbe
  | FfmpegProbe string
  | FfmpegRun string string
  | Recognize string string string
  | Align string string string
  | FileWrite string string
  | PrintHelp

subsection \<open>Python string methods\<close>

fun startswith :: "string \<Rightarrow> string \<Rightarrow> bool" where
  "startswith s [] = True"
| "startswith [] (p # ps) = False"
| "startswith (c # cs) (p # ps) = (c = p \<and> startswith cs ps)"

text \<open>\<open>sub in s\<close>\<close>

fun str_contains :: "string \<Rightarrow> string \<Rightarrow> bool" where
  "str_contains sub [] = (sub = [])"
| "str_contains sub (c # cs) = (startswith (c # cs) sub \<or> str_contains sub cs)"

text \<open>
  The first occurrence of \<open>sep\<close> in \<open>s\<close>, as the text before it and the text after it.
\<close>

fun find_first :: "string \<Rightarrow> string \<Rightarrow> (string \<times> string) option" where
  "find_first sep [] = (if sep = [] then Some ([], []) else None)"
| "find_first sep (c # cs) =
     (if startswith (c # cs) sep then Some ([], drop (length sep) (c # cs))
      else (case find_first sep cs of
              None \<Rightarrow> None
            | Some (b, a) \<Rightarrow> Some (c # b, a)))"

text \<open>
  \<open>s.rsplit(sep, 1)\<close>: an empty separator raises ValueError; otherwise the string is cut
  at the last occurrence of the separator, and is returned whole when there is none.
\<close>

definition rsplit1 :: "string \<Rightarrow> string \<Rightarrow> exn + string list" where
  "rsplit1 s sep =
     (if sep = [] then Inl (ValueError ''empty separator'')
      else (case find_first (rev sep) (rev s) of
              None \<Rightarrow> Inr [s]
            | Some (b, a) \<Rightarrow> Inr [rev a, rev b]))"

definition is_space :: "char \<Rightarrow> bool" where
  "is_space c =
     (let n = (of_char c :: nat)
      in (9 \<le> n \<and> n \<le> 13) \<or> (28 \<le> n \<and> n \<le> 32) \<or> n = 133 \<or> n = 160)"

text \<open>\<open>s.strip()\<close>\<close>

definition strip :: "string \<Rightarrow> string" where
  "strip s = rev (dropWhile is_space (rev (dropWhile is_space s)))"

definition lower_char :: "char \<Rightarrow> char" where
  "lower_char c =
     (let n = (of_char c :: nat)
      in if (65 \<le> n \<and> n \<le> 90) \<or> (192 \<le> n \<and> n \<le> 222 \<and> n \<noteq> 215)
         then char_of (n + 32) else c)"

text \<open>\<open>s.lower()\<close>\<close>

definition lower :: "string \<Rightarrow> string" where
  "lower s = map lower_char s"

text \<open>\<open>str(n)\<close> for a natural number\<close>

fun str_nat :: "nat \<Rightarrow> string" where
  "str_nat n =
     (if n < 10 then [char_of (48 + n)]
      else str_nat (n div 10) @ [char_of (48 + n mod 10)])"

declare str_nat.simps [simp del]

text \<open>\<open>sep.join(items)\<close>\<close>

fun join :: "string \<Rightarrow> string list \<Rightarrow> string" where
  "join sep [] = []"
| "join sep [x] = x"
| "join sep (x # y # ys) = x @ sep @ join sep (y # ys)"

subsection \<open>post\_process\<close>

text \<open>
  The body of the loop of \<open>post_process\<close>, for one element \<open>line\<close> of the iteration:
  the clipped element and what is logged. The handler of ValueError is the \<open>Inl\<close> branch.
\<close>

definition clip_line :: "string \<Rightarrow> string \<times> event list" where
  "clip_line line =
     (if length line > 150 then
        (case rsplit1 (take 150 line) '' '' of
           Inr parts \<Rightarrow> (hd parts, [])
         | Inl e \<Rightarrow>
             (take 150 line,
              [Log WARNING ''post_process''
                 (''Line too long and cannot be split: '' @ line
                    @ ''. Clipping to 150 characters.'')]))
      else (line, []))"

text \<open>
  The loop \<open>for line in subtitles\<close>, with \<open>subtitles_clean\<close> as the accumulator. The
  argument is what the iteration yields, element by element.
\<close>

fun post_process_loop :: "string list \<Rightarrow> string \<Rightarrow> event list \<Rightarrow> string \<times> event list" where
  "post_process_loop [] subtitles_clean tr = (subtitles_clean, tr)"
| "post_process_loop (line # rest) subtitles_clean tr =
     (case clip_line line of
        (line', tr') \<Rightarrow> post_process_loop rest (subtitles_clean @ line') (tr @ tr'))"

text \<open>
  Iterating over a Python \<open>str\<close> yields its characters, each as a string of length one.
\<close>

definition iter_str :: "string \<Rightarrow> string list" where
  "iter_str s = map (\<lambda>c. [c]) s"

definition post_process :: "string \<Rightarrow> string \<times> event list" where
  "post_process subtitles = post_process_loop (iter_str subtitles) [] []"

subsection \<open>POSIX paths\<close>

text \<open>\<open>s.rfind(c)\<close>: the index of the last occurrence of \<open>c\<close>, or -1.\<close>

definition rfind :: "char \<Rightarrow> string \<Rightarrow> int" where
  "rfind c s =
     (if c \<in> set s
      then int (length s) - 1 - int (length (takeWhile (\<lambda>x. x \<noteq> c) (rev s)))
      else - 1)"

text \<open>\<open>os.path.basename\<close>: what follows the last slash.\<close>

definition basename :: "string \<Rightarrow> string" where
  "basename p = drop (nat (rfind CHR ''/'' p + 1)) p"

text \<open>
  \<open>os.path.dirname\<close>: what precedes the basename, without its trailing slashes unless it
  is made of slashes only.
\<close>

definition dirname :: "string \<Rightarrow> string" where
  "dirname p =
     (let head = take (nat (rfind CHR ''/'' p + 1)) p
      in if head \<noteq> [] \<and> head \<noteq> replicate (length head) CHR ''/''
         then rev (dropWhile (\<lambda>c. c = CHR ''/'') (rev head))
         else head)"

text \<open>
  The loop of \<open>os.path.splitext\<close> that skips the leading dots of the file name: True when
  a character other than a dot stands at an index from \<open>filenameIndex\<close> up to, and
  without, \<open>dotIndex\<close>.
\<close>

function splitext_loop :: "string \<Rightarrow> nat \<Rightarrow> nat \<Rightarrow> bool" where
  "splitext_loop p filenameIndex dotIndex =
     (if filenameIndex < dotIndex then
        (if take 1 (drop filenameIndex p) \<noteq> ''.'' then True
         else splitext_loop p (filenameIndex + 1) dotIndex)
      else False)"
  by pat_completeness auto
termination
  by (relation "measure (\<lambda>(p, filenameIndex, dotIndex). dotIndex - filenameIndex)") auto

declare splitext_loop.simps [simp del]

definition splitext :: "string \<Rightarrow> string \<times> string" where
  "splitext p =
     (let sepIndex = rfind CHR ''/'' p;
          dotIndex = rfind CHR ''.'' p
      in if dotIndex > sepIndex \<and> splitext_loop p (nat (sepIndex + 1)) (nat dotIndex)
         then (take (nat dotIndex) p, drop (nat dotIndex) p)
         else (p, []))"

text \<open>\<open>os.path.join\<close> of two components\<close>

definition path_join :: "string \<Rightarrow> string \<Rightarrow> string" where
  "path_join a b =
     (if startswith b ''/'' then b
      else if a = [] \<or> last a = CHR ''/'' then a @ b
      else a @ ''/'' @ b)"

subsection \<open>Data and collaborators\<close>

text \<open>
  A segment of the transcription: the dictionary with the keys \<open>start\<close>, \<open>end\<close> and
  \<open>text\<close>. The type of the times is a parameter, since the module only formats them.
\<close>

record 't segment =
  seg_start :: 't
  seg_end :: 't
  seg_text :: string

text \<open>
  The environment of a run. \<open>utils.timer\<close> is not part of the module: \<open>format_time\<close> is
  a parameter, and \<open>start\<close>, \<open>stop\<close> and \<open>summary\<close> of the stopwatch are taken to
  record their call and return. \<open>format_2f\<close> is the format \<open>:.2f\<close> of a time.
  \<open>ffmpeg_probe\<close> gives the \<open>codec_type\<close> of each stream of a file; \<open>os_walk\<close> gives the triples (root, directories, files) of a walk;
  \<open>ffmpeg_run\<close> is the transcoding of a source path to a target path; \<open>recognize\<close> is
  \<open>whisperx.load_model\<close> followed by \<open>model.transcribe\<close>, for a model size, a device and
  an audio path, and gives the language and the segments; \<open>align\<close> is
  \<open>whisperx.load_align_model\<close> followed by \<open>whisperx.align\<close>, for a language, a device,
  the segments and the audio path; \<open>open_write\<close> opens a path for writing and writes a
  text to it.
\<close>

record 't env =
  linesep :: string
  format_time :: "'t \<Rightarrow> string"
  format_2f :: "'t \<Rightarrow> string"
  cuda_is_available :: "exn + bool"
  ffmpeg_probe :: "string \<Rightarrow> exn + string list"
  os_walk :: "string \<Rightarrow> (string \<times> string list \<times> string list) list"
  isdir :: "string \<Rightarrow> bool"
  isfile :: "string \<Rightarrow> bool"
  ffmpeg_run :: "string \<Rightarrow> string \<Rightarrow> exn + unit"
  recognize :: "string \<Rightarrow> string \<Rightarrow> string \<Rightarrow> exn + (string \<times> 't segment list)"
  align :: "string \<Rightarrow> string \<Rightarrow> 't segment list \<Rightarrow> string \<Rightarrow> exn + 't segment list"
  open_write :: "string \<Rightarrow> string \<Rightarrow> exn + unit"

text \<open>
  The parsed command line. \<open>argv_len\<close> is \<open>len(sys.argv)\<close>. An option that is not given
  is None, but for the model size and the log level, which have a default.
\<close>

record args =
  argv_len :: nat
  arg_file :: "string option"
  arg_directory :: "string option"
  arg_compute_device :: "string option"
  arg_model_size :: string
  arg_log_level :: string

text \<open>The truth value of an optional string: None and the empty string are false.\<close>

fun truthy :: "string option \<Rightarrow> bool" where
  "truthy None = False"
| "truthy (Some s) = (s \<noteq> [])"

subsection \<open>get\_device\<close>

definition get_device :: "'t env \<Rightarrow> string option \<Rightarrow> string \<times> event list" where
  "get_device env device_selection =
     (if (case device_selection of
            None \<Rightarrow> True
          | Some d \<Rightarrow> str_contains ''cuda'' (lower d))
      then
        (case cuda_is_available env of
           Inr available \<Rightarrow>
             (if available
              then (''cuda'', [CudaProbe, Log DEBUG ''get_device'' ''CUDA available.''])
              else (''cpu'',
                    [CudaProbe,
                     Log WARNING ''get_device'' ''CUDA not available, falling back to CPU'']))
         | Inl e \<Rightarrow>
             (''cpu'',
              [CudaProbe,
               Log ERROR ''get_device''
                 (''Warning: Error checking CUDA availability ('' @ exn_str e @ '')''),
               Log WARNING ''get_device'' ''Falling back to CPU.'']))
      else (''cpu'', []))"

subsection \<open>is\_media\_file and get\_media\_files\<close>

definition is_media_file :: "'t env \<Rightarrow> string \<Rightarrow> (bool \<times> bool) \<times> event list" where
  "is_media_file env file_path =
     (case ffmpeg_probe env file_path of
        Inr streams \<Rightarrow>
          (case streams of
             [] \<Rightarrow> ((False, False), [FfmpegProbe file_path])
           | stream_type # others \<Rightarrow>
               (if stream_type = ''audio'' \<or> stream_type = ''video''
                then ((True, stream_type = ''audio''), [FfmpegProbe file_path])
                else ((False, False), [FfmpegProbe file_path])))
      | Inl e \<Rightarrow>
          ((False, False),
           [FfmpegProbe file_path,
            Log ERROR ''is_media_file''
              (''An error occurred while probing the file: '' @ exn_str e)]))"

text \<open>The inner loop of the walk, \<open>for f in files\<close>, with \<open>media_files\<close> as accumulator.\<close>

fun walk_files ::
  "'t env \<Rightarrow> string \<Rightarrow> string list \<Rightarrow> (string \<times> bool) list \<Rightarrow> event list
     \<Rightarrow> (string \<times> bool) list \<times> event list" where
  "walk_files env root [] media_files tr = (media_files, tr)"
| "walk_files env root (f # files) media_files tr =
     (case is_media_file env (path_join root f) of
        ((is_valid, is_audio), tr') \<Rightarrow>
          walk_files env root files
            (if is_valid then media_files @ [(path_join root f, is_audio)] else media_files)
            (tr @ tr'))"

text \<open>The outer loop, \<open>for root, _, files in os.walk(directory)\<close>.\<close>

fun walk_roots ::
  "'t env \<Rightarrow> (string \<times> string list \<times> string list) list \<Rightarrow> (string \<times> bool) list
     \<Rightarrow> event list \<Rightarrow> (string \<times> bool) list \<times> event list" where
  "walk_roots env [] media_files tr = (media_files, tr)"
| "walk_roots env ((root, dirs, files) # rest) media_files tr =
     (case walk_files env root files media_files tr of
        (media_files', tr') \<Rightarrow> walk_roots env rest media_files' tr')"

text \<open>
  The part of \<open>get_media_files\<close> under \<open>if file:\<close>, for the list and the events so far.
  The value None is Python's None.
\<close>

definition check_file ::
  "'t env \<Rightarrow> string option \<Rightarrow> (string \<times> bool) list \<Rightarrow> event list
     \<Rightarrow> (string \<times> bool) list option \<times> event list" where
  "check_file env file_arg media_files tr =
     (case file_arg of
        None \<Rightarrow> (Some media_files, tr)
      | Some f \<Rightarrow>
          (if f = [] then (Some media_files, tr)
           else
             (case is_media_file env f of
                ((is_valid, is_audio), tr') \<Rightarrow>
                  (if is_valid then (Some (media_files @ [(f, is_audio)]), tr @ tr')
                   else
                     (None,
                      tr @ tr' @
                      [Log ERROR ''get_media_files''
                         (''Error: File '' @ [CHR 0x27] @ f @ [CHR 0x27]
                            @ '' is not a valid media file.'')])))))"

definition get_media_files ::
  "'t env \<Rightarrow> string option \<Rightarrow> string option
     \<Rightarrow> (string \<times> bool) list option \<times> event list" where
  "get_media_files env directory_arg file_arg =
     (case directory_arg of
        None \<Rightarrow> check_file env file_arg [] []
      | Some d \<Rightarrow>
          (if d = [] then check_file env file_arg [] []
           else
             (case walk_roots env (os_walk env d) [] [] of
                (media_files, tr) \<Rightarrow>
                  (if media_files = [] then
                     (None,
                      tr @
                      [Log ERROR ''get_media_files''
                         (''No valid media files found in directory '' @ [CHR 0x27] @ d
                            @ [CHR 0x27])])
                   else check_file env file_arg media_files tr))))"

subsection \<open>extract\_audio\<close>

definition extract_audio :: "'t env \<Rightarrow> string \<Rightarrow> string \<times> event list" where
  "extract_audio env video_path =
     (let extracted_audio_path = ''audio-'' @ fst (splitext (basename video_path)) @ ''.mp3''
      in (case ffmpeg_run env video_path extracted_audio_path of
            Inr u \<Rightarrow>
              (extracted_audio_path,
               [TimerStart ''Audio Extraction'',
                FfmpegRun video_path extracted_audio_path,
                TimerStop ''Audio Extraction''])
          | Inl e \<Rightarrow>
              (extracted_audio_path,
               [TimerStart ''Audio Extraction'',
                FfmpegRun video_path extracted_audio_path,
                Log ERROR ''extract_audio''
                  (''An error occurred while extracting audio: '' @ exn_str e),
                TimerStop ''Audio Extraction''])))"

subsection \<open>transcribe\<close>

text \<open>The debug line logged for each aligned segment.\<close>

definition segment_line :: "'t env \<Rightarrow> 't segment \<Rightarrow> event" where
  "segment_line env segment =
     Log DEBUG ''transcribe''
       (''['' @ format_2f env (seg_start segment) @ ''s -> ''
          @ format_2f env (seg_end segment) @ ''s] '' @ seg_text segment)"

definition transcribe ::
  "'t env \<Rightarrow> string \<Rightarrow> string \<Rightarrow> string
     \<Rightarrow> (exn + (string \<times> 't segment list)) \<times> event list" where
  "transcribe env audio_path device model_size_arg =
     (case recognize env model_size_arg device audio_path of
        Inl e \<Rightarrow>
          (Inl e, [TimerStart ''Transcription'', Recognize model_size_arg device audio_path])
      | Inr (language, initial_segments) \<Rightarrow>
          (case align env language device initial_segments audio_path of
             Inl e \<Rightarrow>
               (Inl e,
                [TimerStart ''Transcription'', Recognize model_size_arg device audio_path,
                 Align language device audio_path])
           | Inr segments \<Rightarrow>
               (Inr (language, segments),
                [TimerStart ''Transcription'', Recognize model_size_arg device audio_path,
                 Align language device audio_path,
                 Log INFO ''transcribe'' (''Language: '' @ language)]
                @ map (segment_line env) segments
                @ [TimerStop ''Transcription''])))"

subsection \<open>generate\_subtitles\<close>

text \<open>
  The loop \<open>for i, segment in enumerate(segments, start=1)\<close>: \<open>i\<close> is the index of the
  segment at the head of the list, \<open>srt_content\<close> the list built so far.
\<close>

fun generate_loop :: "'t env \<Rightarrow> nat \<Rightarrow> 't segment list \<Rightarrow> string list \<Rightarrow> string list" where
  "generate_loop env i [] srt_content = srt_content"
| "generate_loop env i (segment # rest) srt_content =
     generate_loop env (i + 1) rest
       (srt_content @
        [linesep env @ str_nat i,
         format_time env (seg_start segment) @ '' --> '' @ format_time env (seg_end segment),
         strip (seg_text segment) @ linesep env])"

definition generate_subtitles :: "'t env \<Rightarrow> 't segment list \<Rightarrow> string" where
  "generate_subtitles env segments = join (linesep env) (generate_loop env 1 segments [])"

subsection \<open>main\<close>

text \<open>
  What follows the transcription in the body of the loop of \<open>main\<close>: rendering,
  post-processing and the writing of the subtitle file, whose failure is caught.
\<close>

definition write_subtitles ::
  "'t env \<Rightarrow> string \<Rightarrow> string \<Rightarrow> string \<Rightarrow> 't segment list \<Rightarrow> event list" where
  "write_subtitles env input_media_path file_name language segments =
     (case post_process (generate_subtitles env segments) of
        (subtitles, tr) \<Rightarrow>
          (let subtitle_file_name = file_name @ ''.ai-'' @ language @ ''.srt'';
               subtitle_path = path_join (dirname input_media_path) subtitle_file_name
           in tr @
              (case open_write env subtitle_path subtitles of
                 Inr u \<Rightarrow>
                   [FileWrite subtitle_path subtitles,
                    Log INFO ''main'' (''Subtitle file generated: '' @ subtitle_file_name)]
               | Inl e \<Rightarrow>
                   [Log ERROR ''main''
                      (''An error occurred while writing the subtitle file: ''
                         @ exn_str e)])))"

text \<open>The step \<open>Extract Audio\<close> of the body: the audio path and the events.\<close>

definition audio_step :: "'t env \<Rightarrow> string \<Rightarrow> bool \<Rightarrow> string \<times> event list" where
  "audio_step env input_media_path audio_flag =
     (if \<not> audio_flag then
        (case extract_audio env input_media_path of
           (audio_path, tr) \<Rightarrow>
             (audio_path,
              Log INFO ''main'' (''Processing video file: '' @ input_media_path) # tr))
      else
        (input_media_path,
         [Log INFO ''main'' (''Processing audio file: '' @ input_media_path)]))"

text \<open>What \<open>None.lower()\<close> raises.\<close>

definition none_has_no_lower :: exn where
  "none_has_no_lower =
     AttributeError
       ([CHR 0x27] @ ''NoneType'' @ [CHR 0x27] @ '' object has no attribute ''
          @ [CHR 0x27] @ ''lower'' @ [CHR 0x27])"

text \<open>
  The body of the loop of \<open>main\<close> for one media file. The arguments of the call of
  \<open>transcribe\<close> are evaluated from left to right: \<open>args.compute_device.lower()\<close> is
  evaluated before \<open>get_device\<close> is called, and raises AttributeError on None. No
  handler stands around the call of \<open>transcribe\<close>.
\<close>

definition process_media_file ::
  "'t env \<Rightarrow> args \<Rightarrow> string \<times> bool \<Rightarrow> (exn + unit) \<times> event list" where
  "process_media_file env a media_file =
     (case media_file of
        (input_media_path, audio_flag) \<Rightarrow>
          (case rsplit1 input_media_path ''.'' of
             Inl e \<Rightarrow> (Inl e, [])
           | Inr parts \<Rightarrow>
               (let file_name = basename (hd parts) in
                (case audio_step env input_media_path audio_flag of
                   (audio_path, tr1) \<Rightarrow>
                     (case arg_compute_device a of
                        None \<Rightarrow>
                          (Inl none_has_no_lower, TimerStart file_name # tr1)
                      | Some cd \<Rightarrow>
                          (case get_device env (Some (lower cd)) of
                             (device, tr2) \<Rightarrow>
                               (case transcribe env audio_path device (lower (arg_model_size a)) of
                                  (Inl e, tr3) \<Rightarrow>
                                    (Inl e, TimerStart file_name # tr1 @ tr2 @ tr3)
                                | (Inr (language, segments), tr3) \<Rightarrow>
                                    (Inr (),
                                     TimerStart file_name # tr1 @ tr2 @ tr3
                                     @ write_subtitles env input_media_path file_name
                                         language segments
                                     @ [TimerStop file_name]))))))))"

text \<open>The loop \<open>for media_file in media_files\<close>: an exception of the body ends it.\<close>

fun process_media_files ::
  "'t env \<Rightarrow> args \<Rightarrow> (string \<times> bool) list \<Rightarrow> (exn + unit) \<times> event list" where
  "process_media_files env a [] = (Inr (), [])"
| "process_media_files env a (media_file # rest) =
     (case process_media_file env a media_file of
        (Inl e, tr) \<Rightarrow> (Inl e, tr)
      | (Inr u, tr) \<Rightarrow>
          (case process_media_files env a rest of
             (r, tr') \<Rightarrow> (r, tr @ tr')))"

text \<open>How a run of \<open>main\<close> ends.\<close>

datatype outcome = Returned | Exited nat | Raised exn

text \<open>
  The two checks of the paths: \<open>args.directory and not os.path.isdir(args.directory)\<close>,
  and the same for the file.
\<close>

definition directory_missing :: "'t env \<Rightarrow> args \<Rightarrow> bool" where
  "directory_missing env a =
     (case arg_directory a of
        None \<Rightarrow> False
      | Some d \<Rightarrow> d \<noteq> [] \<and> \<not> isdir env d)"

definition file_missing :: "'t env \<Rightarrow> args \<Rightarrow> bool" where
  "file_missing env a =
     (case arg_file a of
        None \<Rightarrow> False
      | Some f \<Rightarrow> f \<noteq> [] \<and> \<not> isfile env f)"

text \<open>An optional string inside a message.\<close>

fun shown :: "string option \<Rightarrow> string" where
  "shown None = ''None''"
| "shown (Some s) = s"

text \<open>
  \<open>main\<close>, from the parsed arguments on (the parsing itself and the set-up of the
  logging are left out).
\<close>

definition main :: "'t env \<Rightarrow> args \<Rightarrow> outcome \<times> event list" where
  "main env a =
     (if argv_len a = 1 then (Exited 1, [PrintHelp])
      else if directory_missing env a then
        (Returned,
         [Log ERROR ''main''
            (''Error: Directory '' @ [CHR 0x27] @ shown (arg_directory a) @ [CHR 0x27]
               @ '' does not exist.'')])
      else if file_missing env a then
        (Returned,
         [Log ERROR ''main''
            (''Error: File '' @ [CHR 0x27] @ shown (arg_file a) @ [CHR 0x27]
               @ '' does not exist.'')])
      else
        (case get_media_files env (arg_directory a) (arg_file a) of
           (None, tr) \<Rightarrow> (Returned, tr)
         | (Some media_files, tr) \<Rightarrow>
             (if media_files = [] then (Returned, tr)
              else
                (case process_media_files env a media_files of
                   (Inl e, tr') \<Rightarrow> (Raised e, tr @ tr')
                 | (Inr u, tr') \<Rightarrow> (Returned, tr @ tr' @ [TimerSummary])))))"

text \<open>The subtitle files a run has written: the path and the text of each, in order.\<close>

fun written_files :: "event list \<Rightarrow> (string \<times> string) list" where
  "written_files [] = []"
| "written_files (FileWrite p s # tr) = (p, s) # written_files tr"
| "written_files (ev # tr) = written_files tr"

subsection \<open>A sample environment\<close>

text \<open>
  One machine on which the theorems below are instantiated: times are milliseconds,
  written in decimal; the accelerator probe raises; the directory \<open>d\<close> holds an audio
  file and a text file, the directory \<open>empty\<close> a text file only; the transcoding fails;
  the recognition fails for \<open>a.mp3\<close> and gives one English segment for any other path;
  the subtitle file of \<open>b.mp3\<close> cannot be written.
\<close>

definition sample_env :: "nat env" where
  "sample_env =
     \<lparr>linesep = [CHR 0x0A],
      format_time = str_nat,
      format_2f = str_nat,
      cuda_is_available = Inl (Exception ''no driver''),
      ffmpeg_probe =
        (\<lambda>p. if p = ''d/a.mp3'' \<or> p = ''a.mp3'' \<or> p = ''b.mp3'' \<or> p = ''c.mp3''
             then Inr [''audio'']
             else if p = ''v.mp4'' then Inr [''video'']
             else Inl (Exception ''Invalid data found'')),
      os_walk =
        (\<lambda>d. if d = ''d'' then [(''d'', [], [''a.mp3'', ''notes.txt''])]
             else if d = ''empty'' then [(''empty'', [], [''notes.txt''])]
             else []),
      isdir = (\<lambda>d. d = ''d'' \<or> d = ''empty''),
      isfile = (\<lambda>f. True),
      ffmpeg_run = (\<lambda>src dst. Inl (Exception ''ffmpeg error'')),
      recognize =
        (\<lambda>m d p. if p = ''a.mp3'' then Inl (Exception ''model failure'')
                 else Inr (''en'', [\<lparr>seg_start = 0, seg_end = 1500, seg_text = '' hello ''\<rparr>])),
      align = (\<lambda>l d segs p. Inr segs),
      open_write =
        (\<lambda>p s. if p = ''b.ai-en.srt'' then Inl (Exception ''Permission denied'')
               else Inr ())\<rparr>"

definition sample_args :: args where
  "sample_args =
     \<lparr>argv_len = 3, arg_file = Some ''a.mp3'', arg_directory = None,
      arg_compute_device = Some ''cpu'', arg_model_size = ''base.en'',
      arg_log_level = ''ERROR''\<rparr>"

text \<open>A line of 201 characters with one space, at index 100.\<close>

definition long_line :: string where
  "long_line = replicate 100 CHR ''a'' @ '' '' @ replicate 100 CHR ''b''"

section \<open>Properties\<close>

subsection \<open>Properties of post\_process\<close>

lemma clip_line_short: "length line \<le> 150 \<Longrightarrow> clip_line line = (line, [])"
  by (simp add: clip_line_def)

lemma post_process_loop_chars:
  "post_process_loop (iter_str s) acc tr = (acc @ s, tr)"
proof (induction s arbitrary: acc tr)
  case Nil
  show ?case by (simp add: iter_str_def)
next
  case (Cons c s)
  have "clip_line [c] = ([c], [])"
    by (rule clip_line_short) simp
  moreover have "iter_str (c # s) = [c] # iter_str s"
    by (simp add: iter_str_def)
  ultimately show ?case
    using Cons.IH [of "acc @ [c]" tr] by simp
qed

lemma post_process_unchanged: "post_process s = (s, [])"
  by (simp add: post_process_def post_process_loop_chars)

text \<open>
  C3. \<open>post_process\<close> returns every input string unchanged (and logs nothing): the loop
  runs over the characters of the string, so no element of the iteration is longer
  than 150.
\<close>

theorem C3_post_process_identity: "fst (post_process s) = s \<and> snd (post_process s) = []"
  by (simp add: post_process_unchanged)

text \<open>
  C1. On a line of 201 characters with a space at index 100, the body of the loop, if
  it is given the whole line, clips it to the 100 characters before the space, which is
  what the claim asks for. \<open>post_process\<close> itself returns all 201 characters: its loop
  runs over the characters of the text and never sees a line.
\<close>

theorem C1_long_line_is_not_clipped:
  "length long_line = 201
   \<and> fst (clip_line long_line) = replicate 100 CHR ''a''
   \<and> fst (post_process long_line) = long_line"
proof -
  have "length long_line = 201"
    by (simp add: long_line_def)
  moreover have "fst (clip_line long_line) = replicate 100 CHR ''a''"
    by code_simp
  moreover have "fst (post_process long_line) = long_line"
    by (simp add: post_process_unchanged)
  ultimately show ?thesis by blast
qed

subsection \<open>get\_device\<close>

text \<open>
  C5. Whether the preference is absent or asks for the accelerated device (in any
  case of the letters), an availability probe that returns false or raises makes
  \<open>get_device\<close> return \<open>cpu\<close>, after the probe has been consulted. \<open>get_device\<close> has
  no exceptional result: it returns \<open>cuda\<close> or \<open>cpu\<close> on every input.
\<close>

theorem C5_get_device_falls_back_to_cpu:
  assumes pref: "device_selection = None
                 \<or> (\<exists>d. device_selection = Some d \<and> str_contains ''cuda'' (lower d))"
    and probe: "cuda_is_available env = Inr False \<or> (\<exists>e. cuda_is_available env = Inl e)"
  shows "fst (get_device env device_selection) = ''cpu''
         \<and> hd (snd (get_device env device_selection)) = CudaProbe
         \<and> (\<forall>sel. fst (get_device env sel) = ''cuda''
                    \<or> fst (get_device env sel) = ''cpu'')"
proof -
  have asked: "(case device_selection of None \<Rightarrow> True
                | Some d \<Rightarrow> str_contains ''cuda'' (lower d))"
    using pref by auto
  have cpu: "fst (get_device env device_selection) = ''cpu''"
    using probe by (auto simp: get_device_def)
  have probed: "hd (snd (get_device env device_selection)) = CudaProbe"
    using probe asked by (auto simp: get_device_def)
  have total: "fst (get_device env sel) = ''cuda'' \<or> fst (get_device env sel) = ''cpu''"
    for sel
    by (simp add: get_device_def split: sum.split)
  from cpu probed total show ?thesis by blast
qed

theorem C5_get_device_witness:
  "(Some ''CUDA:0'' = None \<or> (\<exists>d. Some ''CUDA:0'' = Some d \<and> str_contains ''cuda'' (lower d)))
   \<and> cuda_is_available sample_env = Inl (Exception ''no driver'')
   \<and> fst (get_device sample_env (Some ''CUDA:0'')) = ''cpu''
   \<and> hd (snd (get_device sample_env (Some ''CUDA:0''))) = CudaProbe"
proof -
  have low: "str_contains ''cuda'' (lower ''CUDA:0'')"
    by code_simp
  have pref: "Some ''CUDA:0'' = None
              \<or> (\<exists>d. Some ''CUDA:0'' = Some d \<and> str_contains ''cuda'' (lower d))"
    using low by simp
  have raised: "cuda_is_available sample_env = Inl (Exception ''no driver'')"
    by (simp add: sample_env_def)
  then have probe: "cuda_is_available sample_env = Inr False
                    \<or> (\<exists>e. cuda_is_available sample_env = Inl e)"
    by simp
  from C5_get_device_falls_back_to_cpu [OF pref probe] pref raised
  show ?thesis by blast
qed

subsection \<open>extract\_audio\<close>

text \<open>
  C6. \<open>extract_audio\<close> returns the path \<open>audio-{baseName}.mp3\<close>, where the base name is
  the file name of the source without its extension, whatever the transcoding does;
  when the transcoding raises, the failure is logged and the path is returned all the
  same.
\<close>

theorem C6_extract_audio_returns_path:
  "fst (extract_audio env video_path)
     = ''audio-'' @ fst (splitext (basename video_path)) @ ''.mp3''
   \<and> (\<forall>e. ffmpeg_run env video_path
              (''audio-'' @ fst (splitext (basename video_path)) @ ''.mp3'') = Inl e
          \<longrightarrow> Log ERROR ''extract_audio''
                (''An error occurred while extracting audio: '' @ exn_str e)
              \<in> set (snd (extract_audio env video_path)))"
  by (simp add: extract_audio_def Let_def split: sum.split)

theorem C6_extract_audio_witness:
  "ffmpeg_run sample_env ''/x/y/movie.final.mp4'' ''audio-movie.final.mp3''
     = Inl (Exception ''ffmpeg error'')
   \<and> fst (extract_audio sample_env ''/x/y/movie.final.mp4'') = ''audio-movie.final.mp3''
   \<and> Log ERROR ''extract_audio'' ''An error occurred while extracting audio: ffmpeg error''
       \<in> set (snd (extract_audio sample_env ''/x/y/movie.final.mp4''))"
proof -
  have name: "''audio-'' @ fst (splitext (basename ''/x/y/movie.final.mp4'')) @ ''.mp3''
              = ''audio-movie.final.mp3''"
    by code_simp
  have raised: "ffmpeg_run sample_env ''/x/y/movie.final.mp4'' ''audio-movie.final.mp3''
                = Inl (Exception ''ffmpeg error'')"
    by (simp add: sample_env_def)
  from C6_extract_audio_returns_path [of sample_env "''/x/y/movie.final.mp4''"]
  show ?thesis
    unfolding name using raised by simp
qed

subsection \<open>generate\_subtitles\<close>







text \<open>
  C8. Rendering the empty sequence of segments and post-processing the result gives
  the empty string.
\<close>

theorem C8_empty_segments_give_empty_text:
  "fst (post_process (generate_subtitles env [])) = []"
  by (simp add: generate_subtitles_def post_process_def iter_str_def)

subsection \<open>get\_media\_files\<close>

lemma walk_files_none_valid:
  "(\<forall>f \<in> set files. \<not> fst (fst (is_media_file env (path_join root f))))
   \<Longrightarrow> fst (walk_files env root files media_files tr) = media_files"
proof (induction files arbitrary: media_files tr)
  case Nil
  show ?case by simp
next
  case (Cons f files)
  obtain is_valid is_audio tr' where
    probe: "is_media_file env (path_join root f) = ((is_valid, is_audio), tr')"
    by (metis surj_pair)
  with Cons.prems have "\<not> is_valid" by simp
  with probe Cons show ?case by simp
qed

lemma walk_roots_none_valid:
  "(\<forall>(root, dirs, files) \<in> set roots.
      \<forall>f \<in> set files. \<not> fst (fst (is_media_file env (path_join root f))))
   \<Longrightarrow> fst (walk_roots env roots media_files tr) = media_files"
proof (induction roots arbitrary: media_files tr)
  case Nil
  show ?case by simp
next
  case (Cons triple roots)
  obtain root dirs files where triple: "triple = (root, dirs, files)"
    by (metis prod_cases3)
  have here: "\<forall>f \<in> set files. \<not> fst (fst (is_media_file env (path_join root f)))"
    using Cons.prems triple by simp
  have later: "\<forall>(root, dirs, files) \<in> set roots.
      \<forall>f \<in> set files. \<not> fst (fst (is_media_file env (path_join root f)))"
    using Cons.prems by simp
  obtain media_files' tr' where
    inner: "walk_files env root files media_files tr = (media_files', tr')"
    by (metis surj_pair)
  have "media_files' = media_files"
    using walk_files_none_valid [OF here, of media_files tr] inner by simp
  then show ?case
    using Cons.IH [OF later, of media_files tr'] triple inner by simp
qed

text \<open>
  C9. When a directory is given and no file of the walk is valid media,
  \<open>get_media_files\<close> returns None, whatever the single file is, and not the empty list.
\<close>

theorem C9_directory_without_media_is_not_found:
  assumes given: "truthy (Some d)"
    and none_valid:
      "\<forall>(root, dirs, files) \<in> set (os_walk env d).
         \<forall>f \<in> set files. \<not> fst (fst (is_media_file env (path_join root f)))"
  shows "fst (get_media_files env (Some d) file_arg) = None
         \<and> fst (get_media_files env (Some d) file_arg) \<noteq> Some []"
proof -
  from given have d: "d \<noteq> []" by simp
  obtain media_files tr where
    walk: "walk_roots env (os_walk env d) [] [] = (media_files, tr)"
    by (metis surj_pair)
  have "media_files = []"
    using walk_roots_none_valid [OF none_valid, of "[]" "[]"] walk by simp
  then show ?thesis
    using d walk by (simp add: get_media_files_def)
qed

theorem C9_directory_without_media_witness:
  "truthy (Some ''empty'')
   \<and> os_walk sample_env ''empty'' = [(''empty'', [], [''notes.txt''])]
   \<and> fst (get_media_files sample_env (Some ''empty'') (Some ''a.mp3'')) = None"
proof -
  have given: "truthy (Some ''empty'')" by simp
  have walk: "os_walk sample_env ''empty'' = [(''empty'', [], [''notes.txt''])]"
    by (simp add: sample_env_def)
  have invalid: "\<not> fst (fst (is_media_file sample_env (path_join ''empty'' ''notes.txt'')))"
    by code_simp
  have none_valid:
    "\<forall>(root, dirs, files) \<in> set (os_walk sample_env ''empty'').
       \<forall>f \<in> set files. \<not> fst (fst (is_media_file sample_env (path_join root f)))"
    unfolding walk using invalid by simp
  from C9_directory_without_media_is_not_found [OF given none_valid, of "Some ''a.mp3''"]
    given walk
  show ?thesis by simp
qed

text \<open>
  C4 as stated fails: with the directory \<open>d\<close>, whose walk gives one valid audio file,
  and the single file \<open>x.txt\<close>, which is not valid media, the result is None and the
  candidate of the directory is lost.
\<close>

theorem C4_invalid_file_discards_directory_counterexample:
  "fst (get_media_files sample_env (Some ''d'') None) = Some [(''d/a.mp3'', True)]
   \<and> fst (fst (is_media_file sample_env ''x.txt'')) = False
   \<and> fst (get_media_files sample_env (Some ''d'') (Some ''x.txt'')) = None"
  by code_simp

text \<open>
  C4, amended. When a single file is given and it is not valid media,
  \<open>get_media_files\<close> returns None for the whole call, whatever the walk of the directory
  has found: the candidates of the directory are not returned.
\<close>

theorem C4_invalid_file_is_not_found:
  assumes given: "truthy (Some f)"
    and invalid: "\<not> fst (fst (is_media_file env f))"
  shows "fst (get_media_files env directory_arg (Some f)) = None"
proof -
  from given have f: "f \<noteq> []" by simp
  have check: "fst (check_file env (Some f) media_files tr) = None" for media_files tr
  proof -
    obtain is_valid is_audio tr' where
      probe: "is_media_file env f = ((is_valid, is_audio), tr')"
      by (metis surj_pair)
    with invalid have "\<not> is_valid" by simp
    with probe f show ?thesis by (simp add: check_file_def)
  qed
  show ?thesis
  proof (cases "truthy directory_arg")
    case False
    then have "get_media_files env directory_arg (Some f) = check_file env (Some f) [] []"
      by (cases directory_arg) (simp_all add: get_media_files_def)
    then show ?thesis using check by simp
  next
    case True
    then obtain d where d: "directory_arg = Some d" "d \<noteq> []"
      by (cases directory_arg) simp_all
    obtain media_files tr where
      walk: "walk_roots env (os_walk env d) [] [] = (media_files, tr)"
      by (metis surj_pair)
    show ?thesis
    proof (cases "media_files = []")
      case True
      then show ?thesis
        using d walk by (simp add: get_media_files_def)
    next
      case False
      then have "get_media_files env directory_arg (Some f)
                 = check_file env (Some f) media_files tr"
        using d walk by (simp add: get_media_files_def)
      then show ?thesis using check by simp
    qed
  qed
qed

theorem C4_invalid_file_witness:
  "truthy (Some ''x.txt'')
   \<and> fst (fst (is_media_file sample_env ''x.txt'')) = False
   \<and> fst (get_media_files sample_env (Some ''d'') (Some ''x.txt'')) = None"
proof -
  have given: "truthy (Some ''x.txt'')" by simp
  have invalid: "\<not> fst (fst (is_media_file sample_env ''x.txt''))"
    by code_simp
  from C4_invalid_file_is_not_found [OF given invalid, of "Some ''d''"] given invalid
  show ?thesis by simp
qed

subsection \<open>The loop of main\<close>

lemma rsplit1_dot: "\<exists>parts. rsplit1 s ''.'' = Inr parts"
  by (cases "find_first (rev ''.'') (rev s)") (auto simp: rsplit1_def)

lemma audio_step_events:
  "ev \<in> set (snd (audio_step env input_media_path audio_flag))
   \<Longrightarrow> ev \<noteq> CudaProbe \<and> (\<forall>p s. ev \<noteq> FileWrite p s)"
  by (auto simp: audio_step_def extract_audio_def Let_def split: if_splits sum.splits)

lemma written_files_none:
  "(\<forall>ev \<in> set tr. \<forall>p s. ev \<noteq> FileWrite p s) \<Longrightarrow> written_files tr = []"
proof (induction tr)
  case Nil
  show ?case by simp
next
  case (Cons ev tr)
  then show ?case by (cases ev) simp_all
qed

lemma process_media_file_no_device:
  assumes none: "arg_compute_device a = None"
  shows "\<exists>file_name. process_media_file env a (input_media_path, audio_flag)
           = (Inl none_has_no_lower,
              TimerStart file_name # snd (audio_step env input_media_path audio_flag))"
proof -
  obtain parts where parts: "rsplit1 input_media_path ''.'' = Inr parts"
    using rsplit1_dot by blast
  obtain audio_path tr1 where
    step: "audio_step env input_media_path audio_flag = (audio_path, tr1)"
    by (metis surj_pair)
  show ?thesis
    using none parts step by (simp add: process_media_file_def)
qed

text \<open>
  C10. When the compute device is not given, the body of the loop raises
  AttributeError for the first media file, after the audio step and before
  \<open>get_device\<close> is called: the accelerator is not probed, nothing is transcribed and no
  subtitle file is written, for this file or for any later one. A run of \<open>main\<close> that
  reaches the loop ends with this exception.
\<close>

theorem C10_missing_compute_device_aborts:
  assumes none: "arg_compute_device a = None"
  shows "fst (process_media_files env a (media_file # rest)) = Inl none_has_no_lower
         \<and> (\<exists>file_name. snd (process_media_files env a (media_file # rest))
               = TimerStart file_name # snd (audio_step env (fst media_file) (snd media_file)))
         \<and> CudaProbe \<notin> set (snd (process_media_files env a (media_file # rest)))
         \<and> written_files (snd (process_media_files env a (media_file # rest))) = []
         \<and> (\<forall>tr. argv_len a \<noteq> 1 \<and> \<not> directory_missing env a \<and> \<not> file_missing env a
                  \<and> get_media_files env (arg_directory a) (arg_file a)
                      = (Some (media_file # rest), tr)
               \<longrightarrow> fst (main env a) = Raised none_has_no_lower)"
proof -
  obtain file_name where
    body: "process_media_file env a media_file
           = (Inl none_has_no_lower,
              TimerStart file_name # snd (audio_step env (fst media_file) (snd media_file)))"
    using process_media_file_no_device [OF none, of env "fst media_file" "snd media_file"]
    by auto
  then have loop: "process_media_files env a (media_file # rest)
           = (Inl none_has_no_lower,
              TimerStart file_name # snd (audio_step env (fst media_file) (snd media_file)))"
    by simp
  have events: "\<forall>ev \<in> set (snd (process_media_files env a (media_file # rest))).
                  ev \<noteq> CudaProbe \<and> (\<forall>p s. ev \<noteq> FileWrite p s)"
    unfolding loop using audio_step_events [of _ env "fst media_file" "snd media_file"]
    by auto
  have no_probe: "CudaProbe \<notin> set (snd (process_media_files env a (media_file # rest)))"
    using events by blast
  have no_write: "written_files (snd (process_media_files env a (media_file # rest))) = []"
    using events by (intro written_files_none) blast
  have run: "fst (main env a) = Raised none_has_no_lower"
    if "argv_len a \<noteq> 1" "\<not> directory_missing env a" "\<not> file_missing env a"
      "get_media_files env (arg_directory a) (arg_file a) = (Some (media_file # rest), tr)"
    for tr
    using that loop by (simp add: main_def)
  from loop no_probe no_write run show ?thesis
    by auto
qed

theorem C10_missing_compute_device_witness:
  "arg_compute_device
     (sample_args\<lparr>arg_directory := Some ''d'', arg_file := Some ''c.mp3'',
                   arg_compute_device := None\<rparr>) = None
   \<and> fst (get_media_files sample_env (Some ''d'') (Some ''c.mp3''))
       = Some [(''d/a.mp3'', True), (''c.mp3'', True)]
   \<and> fst (main sample_env
            (sample_args\<lparr>arg_directory := Some ''d'', arg_file := Some ''c.mp3'',
                          arg_compute_device := None\<rparr>))
       = Raised none_has_no_lower
   \<and> written_files
        (snd (process_media_files sample_env
               (sample_args\<lparr>arg_directory := Some ''d'', arg_file := Some ''c.mp3'',
                             arg_compute_device := None\<rparr>)
               [(''d/a.mp3'', True), (''c.mp3'', True)])) = []"
proof -
  let ?a = "sample_args\<lparr>arg_directory := Some ''d'', arg_file := Some ''c.mp3'',
                         arg_compute_device := None\<rparr>"
  have none: "arg_compute_device ?a = None"
    by simp
  have argv: "argv_len ?a \<noteq> 1"
    by (simp add: sample_args_def)
  have dir: "\<not> directory_missing sample_env ?a"
    by (simp add: directory_missing_def sample_env_def)
  have fil: "\<not> file_missing sample_env ?a"
    by (simp add: file_missing_def sample_env_def)
  obtain tr where found: "get_media_files sample_env (Some ''d'') (Some ''c.mp3'')
                          = (Some [(''d/a.mp3'', True), (''c.mp3'', True)], tr)"
  proof -
    have "fst (get_media_files sample_env (Some ''d'') (Some ''c.mp3''))
          = Some [(''d/a.mp3'', True), (''c.mp3'', True)]"
      by code_simp
    then show ?thesis
      using that by (metis prod.collapse)
  qed
  have args: "arg_directory ?a = Some ''d''" "arg_file ?a = Some ''c.mp3''"
    by simp_all
  from C10_missing_compute_device_aborts
         [OF none, of sample_env "(''d/a.mp3'', True)" "[(''c.mp3'', True)]"]
    argv dir fil found
  show ?thesis
    unfolding args by simp
qed








end
